theory Spec2Isabelle
  imports Complex_Main
begin

section \<open>The weather screen of index.tsx: data, pipeline and theme\<close>

text \<open>
  The screen is one React component, \<^verbatim>\<open>Index\<close>. Its five \<^verbatim>\<open>useState\<close> slots are
  the record \<open>app\<close>; \<^verbatim>\<open>fetchWeather\<close>, \<^verbatim>\<open>handleSearch\<close>, the \<^verbatim>\<open>useEffect\<close> on
  \<^verbatim>\<open>city\<close>, the \<^verbatim>\<open>bgColors\<close> block and \<^verbatim>\<open>renderContent\<close> are functions on it.

  A JavaScript string is a \<open>string\<close> here, one \<open>char\<close> per code unit (code units
  below 256). JSON numbers are \<open>real\<close>; the coordinates, which the code only prints into
  a URL, are carried as the text that the template literal prints for them.
\<close>

subsection \<open>Data (the TypeScript interfaces)\<close>

record condition =
  main :: string
  description :: string

datatype temperature = Scalar real | MinMax real real

record ForecastItem =
  f_dt :: real
  f_temp :: temperature
  f_weather :: "condition list"

record CurrentConditions =
  dt :: real
  sunrise :: real
  sunset :: real
  temp :: real
  feels_like :: real
  humidity :: real
  uvi :: real
  wind_speed :: real
  weather :: "condition list"

text \<open>
  \<open>current\<close> is optional because the code tests \<^verbatim>\<open>weatherData.current\<close> before it
  reads it.
\<close>

record WeatherData =
  name :: string
  current :: "CurrentConditions option"
  hourly :: "ForecastItem list"
  daily :: "ForecastItem list"

record GeoMatch =
  lat :: string
  lon :: string
  g_name :: string

record app =
  city :: string
  weatherData :: "WeatherData option"
  loading :: bool
  error :: "string option"
  searchInput :: string

definition initial :: app where
  "initial = \<lparr>city = ''Irvine'', weatherData = None, loading = True, error = None,
              searchInput = ''''\<rparr>"

subsection \<open>The network\<close>

text \<open>
  A thrown value is an \<^verbatim>\<open>Error\<close> instance with its message, or anything else.
  \<^verbatim>\<open>fetch\<close> either rejects with a thrown value or resolves to a response, of which the
  code reads \<^verbatim>\<open>ok\<close> and \<^verbatim>\<open>json()\<close>; \<^verbatim>\<open>json()\<close> can reject in turn. The two
  endpoints answer with bodies of different shapes, so the network is a pair of functions
  of the URL; a body is taken to have the shape its reader expects.
\<close>

datatype thrown = ErrorObj string | NonError

datatype 'a response = Rejected thrown | Response bool "thrown + 'a"

record network =
  geoFetch :: "string \<Rightarrow> GeoMatch list response"
  weatherFetch :: "string \<Rightarrow> WeatherData response"

subsection \<open>fetchWeather\<close>

definition API_KEY_PLACEHOLDER :: string where
  "API_KEY_PLACEHOLDER = ''YOUR_API_KEY_HERE''"

definition geoUrl :: "string \<Rightarrow> string \<Rightarrow> string" where
  "geoUrl API_KEY cityName =
     ''https://api.openweathermap.org/geo/1.0/direct?q='' @ cityName
       @ ''&limit=1&appid='' @ API_KEY"

definition weatherUrl :: "string \<Rightarrow> GeoMatch \<Rightarrow> string" where
  "weatherUrl API_KEY g =
     ''https://api.openweathermap.org/data/3.0/onecall?lat='' @ lat g @ ''&lon='' @ lon g
       @ ''&units=imperial&exclude=minutely,alerts&appid='' @ API_KEY"

definition notFound :: "string \<Rightarrow> string" where
  \<open>notFound cityName = ''Could not find city: "'' @ cityName @ ''"''\<close>

text \<open>
  The body of the \<^verbatim>\<open>try\<close> block: the URLs requested, in order, and either the value
  thrown or the bundle given to \<^verbatim>\<open>setWeatherData\<close>.
\<close>

definition tryBlock :: "string \<Rightarrow> network \<Rightarrow> string \<Rightarrow> string list \<times> (thrown + WeatherData)" where
  "tryBlock API_KEY net cityName =
     (case geoFetch net (geoUrl API_KEY cityName) of
        Rejected t \<Rightarrow> ([geoUrl API_KEY cityName], Inl t)
      | Response ok js \<Rightarrow>
          if \<not> ok then
            ([geoUrl API_KEY cityName], Inl (ErrorObj ''Failed to fetch city coordinates.''))
          else
            (case js of
               Inl t \<Rightarrow> ([geoUrl API_KEY cityName], Inl t)
             | Inr geoData \<Rightarrow>
                 (case geoData of
                    [] \<Rightarrow> ([geoUrl API_KEY cityName], Inl (ErrorObj (notFound cityName)))
                  | g # _ \<Rightarrow>
                      (case weatherFetch net (weatherUrl API_KEY g) of
                         Rejected t \<Rightarrow>
                           ([geoUrl API_KEY cityName, weatherUrl API_KEY g], Inl t)
                       | Response wok wjs \<Rightarrow>
                           if \<not> wok then
                             ([geoUrl API_KEY cityName, weatherUrl API_KEY g],
                              Inl (ErrorObj
                                ''API Key Error. Ensure it is valid and authorized for One Call API.''))
                           else
                             (case wjs of
                                Inl t \<Rightarrow>
                                  ([geoUrl API_KEY cityName, weatherUrl API_KEY g], Inl t)
                              | Inr fetchedWeatherData \<Rightarrow>
                                  ([geoUrl API_KEY cityName, weatherUrl API_KEY g],
                                   Inr (fetchedWeatherData\<lparr>name := g_name g\<rparr>)))))))"

text \<open>
  The \<^verbatim>\<open>catch\<close> clause: an \<^verbatim>\<open>Error\<close> instance gives its own message, any other
  thrown value the fallback.
\<close>

fun catchMessage :: "thrown \<Rightarrow> string" where
  "catchMessage (ErrorObj m) = m"
| "catchMessage NonError = ''An unknown error occurred.''"

text \<open>
  \<^verbatim>\<open>fetchWeather\<close> run to its end: the URLs it requested and the state it leaves. In the
  source \<^verbatim>\<open>API_KEY\<close> is a constant that the deployer replaces; it is a parameter here.
\<close>

definition fetchWeather :: "string \<Rightarrow> network \<Rightarrow> string \<Rightarrow> app \<Rightarrow> string list \<times> app" where
  "fetchWeather API_KEY net cityName s =
     (if cityName = [] then ([], s)
      else if API_KEY = API_KEY_PLACEHOLDER then
        ([], s\<lparr>loading := True, error := None\<rparr>
               \<lparr>error := Some ''Please add your OpenWeatherMap API key.'', loading := False\<rparr>)
      else
        (case tryBlock API_KEY net cityName of
           (urls, Inr bundle) \<Rightarrow>
             (urls, s\<lparr>loading := True, error := None\<rparr>
                      \<lparr>weatherData := Some bundle, loading := False\<rparr>)
         | (urls, Inl t) \<Rightarrow>
             (urls, s\<lparr>loading := True, error := None\<rparr>
                      \<lparr>error := Some (catchMessage t), loading := False\<rparr>)))"

subsection \<open>handleSearch and the effect on city\<close>

text \<open>\<^verbatim>\<open>String.prototype.trim\<close>: white space and line terminators, at both ends.\<close>

definition isWhiteSpace :: "char \<Rightarrow> bool" where
  "isWhiteSpace c = (c \<in> set [CHR 0x09, CHR 0x0A, CHR 0x0B, CHR 0x0C, CHR 0x0D, CHR 0x20, CHR 0xA0])"

definition trim :: "string \<Rightarrow> string" where
  "trim t = rev (dropWhile isWhiteSpace (rev (dropWhile isWhiteSpace t)))"

definition handleSearch :: "app \<Rightarrow> app" where
  "handleSearch s =
     (if searchInput s \<noteq> [] then s\<lparr>city := trim (searchInput s), searchInput := ''''\<rparr> else s)"

text \<open>
  \<^verbatim>\<open>useEffect(..., [city, fetchWeather])\<close>: after a render in which \<^verbatim>\<open>city\<close> differs
  from the previous render's, \<^verbatim>\<open>fetchWeather(city)\<close> runs (\<^verbatim>\<open>fetchWeather\<close> itself
  never changes). On mount it runs once.
\<close>

definition cityEffect :: "string \<Rightarrow> network \<Rightarrow> app \<Rightarrow> app \<Rightarrow> string list \<times> app" where
  "cityEffect API_KEY net prev s =
     (if city s \<noteq> city prev then fetchWeather API_KEY net (city s) s else ([], s))"

definition mount :: "string \<Rightarrow> network \<Rightarrow> string list \<times> app" where
  "mount API_KEY net = fetchWeather API_KEY net (city initial) initial"

text \<open>
  Submitting the text \<open>t\<close>: \<^verbatim>\<open>onChangeText\<close> has stored it in \<^verbatim>\<open>searchInput\<close>,
  \<^verbatim>\<open>onSubmitEditing\<close> calls \<^verbatim>\<open>handleSearch\<close>, then the effect runs.
\<close>

definition submit :: "string \<Rightarrow> network \<Rightarrow> app \<Rightarrow> string list \<times> app" where
  "submit API_KEY net s = cityEffect API_KEY net s (handleSearch s)"

definition submitText :: "string \<Rightarrow> network \<Rightarrow> string \<Rightarrow> app \<Rightarrow> string list \<times> app" where
  "submitText API_KEY net t s = submit API_KEY net (s\<lparr>searchInput := t\<rparr>)"

subsection \<open>The background gradient and the content\<close>

text \<open>\<^verbatim>\<open>String.prototype.includes\<close>: the second string occurs in the first.\<close>

fun startsWith :: "string \<Rightarrow> string \<Rightarrow> bool" where
  "startsWith s [] = True"
| "startsWith [] (b # t) = False"
| "startsWith (a # s) (b # t) = (a = b \<and> startsWith s t)"

fun includes_str :: "string \<Rightarrow> string \<Rightarrow> bool" where
  "includes_str [] t = (t = [])"
| "includes_str (a # s) t = (startsWith (a # s) t \<or> includes_str s t)"

definition defaultColors :: "string list" where
  "defaultColors = [''#4c669f'', ''#3b5998'', ''#192f6a'']"

definition isDay :: "CurrentConditions \<Rightarrow> bool" where
  "isDay c = (dt c > sunrise c \<and> dt c < sunset c)"

text \<open>The chain of \<^verbatim>\<open>if\<close>/\<^verbatim>\<open>else if\<close> on the condition; no branch leaves the default.\<close>

definition themeColors :: "string \<Rightarrow> bool \<Rightarrow> string list" where
  "themeColors cond day =
     (if includes_str cond ''Clear'' then
        (if day then [''#4a90e2'', ''#81c7f5''] else [''#0c1445'', ''#3b5998''])
      else if includes_str cond ''Clouds'' then
        (if day then [''#6c7a89'', ''#95a5a6''] else [''#2c3e50'', ''#34495e''])
      else if includes_str cond ''Rain'' \<or> includes_str cond ''Drizzle'' then [''#546e7a'', ''#37474f'']
      else if includes_str cond ''Snow'' then [''#b0c4de'', ''#a4b0be'']
      else defaultColors)"

text \<open>
  \<^verbatim>\<open>weather[0].main\<close> on an empty \<^verbatim>\<open>weather\<close> array raises a TypeError during
  render: the result \<open>None\<close>.
\<close>

definition bgColors :: "app \<Rightarrow> string list option" where
  "bgColors s =
     (case weatherData s of
        None \<Rightarrow> Some defaultColors
      | Some wd \<Rightarrow>
          (case current wd of
             None \<Rightarrow> Some defaultColors
           | Some c \<Rightarrow>
               (case weather c of
                  [] \<Rightarrow> None
                | w0 # _ \<Rightarrow> Some (themeColors (main w0) (isDay c)))))"

text \<open>
  What \<^verbatim>\<open>renderContent\<close> shows, by its branch: the spinner, the error text with the
  search field, the weather bundle with the search field, or nothing. A string is truthy
  when it is not empty.

  The weather branch reads \<^verbatim>\<open>weatherData.current.temp\<close>,
  \<^verbatim>\<open>weatherData.current.weather[0].description\<close> and \<^verbatim>\<open>weatherData.daily[0].temp\<close>
  with no guard, and renders \<^verbatim>\<open>hourly.slice(0, 24)\<close> and \<^verbatim>\<open>daily.slice(1, 8)\<close> through
  \<^verbatim>\<open>HourlyForecastItem\<close> and \<^verbatim>\<open>DailyForecastItem\<close>, which read
  \<^verbatim>\<open>item.weather[0].main\<close>. Where one of these is missing the render raises a
  TypeError: the result \<open>None\<close>, as for \<open>bgColors\<close>.
\<close>

datatype content =
  Spinner
  | ErrorView string string
  | WeatherView WeatherData string
  | Nothing

definition itemRenders :: "ForecastItem \<Rightarrow> bool" where
  "itemRenders item = (f_weather item \<noteq> [])"

definition weatherViewRenders :: "WeatherData \<Rightarrow> bool" where
  "weatherViewRenders wd =
     (case current wd of
        None \<Rightarrow> False
      | Some c \<Rightarrow>
          weather c \<noteq> [] \<and> daily wd \<noteq> []
          \<and> list_all itemRenders (take 24 (hourly wd))
          \<and> list_all itemRenders (take 7 (drop 1 (daily wd))))"

definition weatherBranch :: "app \<Rightarrow> content option" where
  "weatherBranch s =
     (case weatherData s of
        Some wd \<Rightarrow> if weatherViewRenders wd then Some (WeatherView wd (searchInput s)) else None
      | None \<Rightarrow> Some Nothing)"

definition renderContent :: "app \<Rightarrow> content option" where
  "renderContent s =
     (if loading s then Some Spinner
      else
        (case error s of
           Some m \<Rightarrow> if m \<noteq> [] then Some (ErrorView m (searchInput s)) else weatherBranch s
         | None \<Rightarrow> weatherBranch s))"

subsection \<open>Sample inputs\<close>

text \<open>
  A forecast body for a clear day with two hourly and two daily items, a network that
  knows Irvine and nothing else, states
  that hold a bundle with a given condition and current time, and a network whose two
  endpoints answer with a given HTTP success flag.
\<close>

definition exampleHour :: ForecastItem where
  "exampleHour = \<lparr>f_dt = 1700020000, f_temp = Scalar 71.3,
     f_weather = [\<lparr>main = ''Clear'', description = ''clear sky''\<rparr>]\<rparr>"

definition exampleDay :: ForecastItem where
  "exampleDay = \<lparr>f_dt = 1700020000, f_temp = MinMax 55 75,
     f_weather = [\<lparr>main = ''Clear'', description = ''clear sky''\<rparr>]\<rparr>"

definition exampleBody :: WeatherData where
  "exampleBody = \<lparr>name = '''',
     current = Some \<lparr>dt = 1700020000, sunrise = 1700000000, sunset = 1700040000, temp = 71.3,
       feels_like = 70, humidity = 40, uvi = 5.1, wind_speed = 3.4,
       weather = [\<lparr>main = ''Clear'', description = ''clear sky''\<rparr>]\<rparr>,
     hourly = [exampleHour, exampleHour], daily = [exampleDay, exampleDay]\<rparr>"

definition exampleNet :: network where
  "exampleNet = \<lparr>
     geoFetch = (\<lambda>u. if u = geoUrl ''k'' ''Irvine''
                     then Response True (Inr [\<lparr>lat = ''33.68'', lon = ''-117.82'', g_name = ''Irvine''\<rparr>])
                     else Response True (Inr [])),
     weatherFetch = (\<lambda>u. Response True (Inr exampleBody))\<rparr>"

definition currentWith :: "string \<Rightarrow> real \<Rightarrow> CurrentConditions" where
  "currentWith cond now =
     \<lparr>dt = now, sunrise = 1700000000, sunset = 1700040000, temp = 71.3, feels_like = 70,
      humidity = 40, uvi = 5.1, wind_speed = 3.4,
      weather = [\<lparr>main = cond, description = cond\<rparr>]\<rparr>"

definition bundleWith :: "string \<Rightarrow> real \<Rightarrow> WeatherData" where
  "bundleWith cond now =
     \<lparr>name = ''Irvine'', current = Some (currentWith cond now),
      hourly = [exampleHour, exampleHour], daily = [exampleDay, exampleDay]\<rparr>"

definition stateWith :: "string \<Rightarrow> real \<Rightarrow> app" where
  "stateWith cond now = initial\<lparr>weatherData := Some (bundleWith cond now), loading := False\<rparr>"

definition statusNet :: "bool \<Rightarrow> bool \<Rightarrow> network" where
  "statusNet geo_ok forecast_ok =
     \<lparr>geoFetch = (\<lambda>u. Response geo_ok
                     (Inr [\<lparr>lat = ''33.68'', lon = ''-117.82'', g_name = ''Irvine''\<rparr>])),
      weatherFetch = (\<lambda>u. Response forecast_ok (Inl (ErrorObj ''Unexpected end of input'')))\<rparr>"

section \<open>Properties\<close>

subsection \<open>Helper facts\<close>

lemma fetchWeather_run:
  "API_KEY \<noteq> API_KEY_PLACEHOLDER \<Longrightarrow> cityName \<noteq> [] \<Longrightarrow>
   fetchWeather API_KEY net cityName s =
     (case tryBlock API_KEY net cityName of
        (urls, Inr bundle) \<Rightarrow>
          (urls, s\<lparr>loading := False, error := None, weatherData := Some bundle\<rparr>)
      | (urls, Inl t) \<Rightarrow>
          (urls, s\<lparr>loading := False, error := Some (catchMessage t)\<rparr>))"
  by (simp add: fetchWeather_def split: prod.splits sum.splits)

text \<open>
  With the key as the source ships it, the pipeline stops before any request.
\<close>

lemma fetchWeather_placeholder:
  "cityName \<noteq> [] \<Longrightarrow>
   fetchWeather API_KEY_PLACEHOLDER net cityName s =
     ([], s\<lparr>loading := False, error := Some ''Please add your OpenWeatherMap API key.''\<rparr>)"
  by (simp add: fetchWeather_def)

lemma fetchWeather_frame:
  "city (snd (fetchWeather API_KEY net cityName s)) = city s \<and>
   searchInput (snd (fetchWeather API_KEY net cityName s)) = searchInput s"
  by (simp add: fetchWeather_def split: prod.splits sum.splits)

lemma tryBlock_no_match:
  "geoFetch net (geoUrl API_KEY cityName) = Response True (Inr []) \<Longrightarrow>
   tryBlock API_KEY net cityName = ([geoUrl API_KEY cityName], Inl (ErrorObj (notFound cityName)))"
  by (simp add: tryBlock_def)

lemma notFound_eq: "notFound cityName = ''Could not find city: '' @ [CHR 0x22] @ cityName @ [CHR 0x22]"
  by (simp add: notFound_def)

text \<open>
  \<open>includes_str\<close> is the substring test.
\<close>

lemma startsWith_iff: "startsWith s t \<longleftrightarrow> (\<exists>v. s = t @ v)"
  by (induction s t rule: startsWith.induct) auto

lemma includes_str_iff: "includes_str s t \<longleftrightarrow> (\<exists>u v. s = u @ t @ v)"
proof (induction s)
  case Nil
  then show ?case by simp
next
  case (Cons a s)
  have "(\<exists>u v. a # s = u @ t @ v) \<longleftrightarrow> (\<exists>v. a # s = t @ v) \<or> (\<exists>u v. s = u @ t @ v)"
    by (auto simp: Cons_eq_append_conv) 
  then show ?case using Cons by (simp add: startsWith_iff)
qed

lemma weatherViewRenders_name: "weatherViewRenders (wd\<lparr>name := n\<rparr>) = weatherViewRenders wd"
  by (simp add: weatherViewRenders_def split: option.splits)

lemma exampleBody_renders: "weatherViewRenders exampleBody"
  by (simp add: weatherViewRenders_def exampleBody_def itemRenders_def exampleHour_def
      exampleDay_def)

lemma trim_blank: "trim ''   '' = []"
  by (simp add: trim_def isWhiteSpace_def)

lemma city_mount: "city (snd (mount API_KEY net)) = ''Irvine''"
  by (simp add: mount_def fetchWeather_frame) (simp add: initial_def)

lemma mount_example:
  "mount ''k'' exampleNet =
     ([geoUrl ''k'' ''Irvine'',
       weatherUrl ''k'' \<lparr>lat = ''33.68'', lon = ''-117.82'', g_name = ''Irvine''\<rparr>],
      initial\<lparr>loading := False, weatherData := Some (exampleBody\<lparr>name := ''Irvine''\<rparr>)\<rparr>)"
  by (simp add: mount_def fetchWeather_def tryBlock_def exampleNet_def initial_def API_KEY_PLACEHOLDER_def)

text \<open>
  The empty text is a no-op, and a text that trims to nothing sends no request.
\<close>

lemma submit_empty_noop: "submitText API_KEY net '''' s = ([], s\<lparr>searchInput := ''''\<rparr>)"
  by (simp add: submitText_def submit_def handleSearch_def cityEffect_def)

lemma submit_blank_no_request:
  "trim t = [] \<Longrightarrow> fst (submitText API_KEY net t s) = []"
  by (simp add: submitText_def submit_def handleSearch_def cityEffect_def fetchWeather_def)

subsection \<open>The claims\<close>

text \<open>
  C1. With a real key and a non-empty city name, when the geocoding call answers with a
  match and the forecast call answers with a body, the pipeline ends Ready: not loading,
  no error, and the bundle is the forecast body with its \<open>name\<close> replaced by the name in
  the geocoding answer, whatever the city name typed was. The content then rendered is
  the weather view of that bundle when the body has what the view reads (current
  conditions with a primary condition, a first daily item, a condition in each item
  shown), and a TypeError otherwise.
\<close>

theorem fetchWeather_ready:
  assumes key: "API_KEY \<noteq> API_KEY_PLACEHOLDER"
    and nonempty: "cityName \<noteq> []"
    and geo: "geoFetch net (geoUrl API_KEY cityName) = Response True (Inr (g # rest))"
    and forecast: "weatherFetch net (weatherUrl API_KEY g) = Response True (Inr body)"
  shows "snd (fetchWeather API_KEY net cityName s) =
           s\<lparr>loading := False, error := None, weatherData := Some (body\<lparr>name := g_name g\<rparr>)\<rparr>
         \<and> renderContent (snd (fetchWeather API_KEY net cityName s)) =
             (if weatherViewRenders body
              then Some (WeatherView (body\<lparr>name := g_name g\<rparr>) (searchInput s)) else None)
         \<and> map_option name (weatherData (snd (fetchWeather API_KEY net cityName s))) =
             Some (g_name g)"
proof -
  have "tryBlock API_KEY net cityName =
          ([geoUrl API_KEY cityName, weatherUrl API_KEY g], Inr (body\<lparr>name := g_name g\<rparr>))"
    using geo forecast by (simp add: tryBlock_def)
  then have "fetchWeather API_KEY net cityName s =
      ([geoUrl API_KEY cityName, weatherUrl API_KEY g],
       s\<lparr>loading := False, error := None, weatherData := Some (body\<lparr>name := g_name g\<rparr>)\<rparr>)"
    using key nonempty by (simp add: fetchWeather_run)
  then show ?thesis
    by (simp add: renderContent_def weatherBranch_def weatherViewRenders_name)
qed

theorem fetchWeather_ready_witness:
  "snd (fetchWeather ''k''
         \<lparr>geoFetch = (\<lambda>u. Response True (Inr [\<lparr>lat = ''33.68'', lon = ''-117.82'', g_name = ''Irvine''\<rparr>])),
          weatherFetch = (\<lambda>u. Response True (Inr exampleBody))\<rparr>
         ''irvine'' initial) =
     initial\<lparr>loading := False, error := None,
       weatherData := Some (exampleBody\<lparr>name := ''Irvine''\<rparr>)\<rparr>
   \<and> renderContent (snd (fetchWeather ''k''
         \<lparr>geoFetch = (\<lambda>u. Response True (Inr [\<lparr>lat = ''33.68'', lon = ''-117.82'', g_name = ''Irvine''\<rparr>])),
          weatherFetch = (\<lambda>u. Response True (Inr exampleBody))\<rparr>
         ''irvine'' initial)) =
     Some (WeatherView (exampleBody\<lparr>name := ''Irvine''\<rparr>) '''')"
proof -
  let ?g = "\<lparr>lat = ''33.68'', lon = ''-117.82'', g_name = ''Irvine''\<rparr>"
  let ?net = "\<lparr>geoFetch = (\<lambda>u. Response True (Inr [?g])),
               weatherFetch = (\<lambda>u. Response True (Inr exampleBody))\<rparr>"
  have key: "''k'' \<noteq> API_KEY_PLACEHOLDER"
    by (simp add: API_KEY_PLACEHOLDER_def)
  have typed: "''irvine'' \<noteq> []"
    by simp
  have geo: "geoFetch ?net (geoUrl ''k'' ''irvine'') = Response True (Inr (?g # []))"
    by simp
  have forecast: "weatherFetch ?net (weatherUrl ''k'' ?g) = Response True (Inr exampleBody)"
    by simp
  note r = fetchWeather_ready [OF key typed geo forecast, of initial]
  have state: "snd (fetchWeather ''k'' ?net ''irvine'' initial) =
      initial\<lparr>loading := False, error := None,
        weatherData := Some (exampleBody\<lparr>name := ''Irvine''\<rparr>)\<rparr>"
    using r [THEN conjunct1] by simp
  have field: "searchInput initial = ''''"
    by (simp add: initial_def)
  have shown: "renderContent (snd (fetchWeather ''k'' ?net ''irvine'' initial)) =
      Some (WeatherView (exampleBody\<lparr>name := ''Irvine''\<rparr>) '''')"
    using r [THEN conjunct2, THEN conjunct1] by (simp only: exampleBody_renders field if_True) simp
  show ?thesis
    by (rule conjI [OF state shown])
qed

text \<open>
  C2, as stated, fails: \<^verbatim>\<open>json()\<close> rejects a malformed body with a SyntaxError, which is
  an \<^verbatim>\<open>Error\<close> instance, so the state carries the parser's message and not the fallback.
\<close>

theorem malformed_json_counterexample:
  "error (snd (fetchWeather ''k''
       \<lparr>geoFetch = (\<lambda>u. Response True (Inl (ErrorObj ''JSON Parse error: Unexpected token: <''))),
        weatherFetch = (\<lambda>u. Rejected NonError)\<rparr> ''Paris'' initial))
     = Some ''JSON Parse error: Unexpected token: <''
   \<and> error (snd (fetchWeather ''k''
       \<lparr>geoFetch = (\<lambda>u. Response True (Inl (ErrorObj ''JSON Parse error: Unexpected token: <''))),
        weatherFetch = (\<lambda>u. Rejected NonError)\<rparr> ''Paris'' initial))
     \<noteq> Some ''An unknown error occurred.''"
  by (simp add: fetchWeather_def tryBlock_def API_KEY_PLACEHOLDER_def)

text \<open>
  C2, amended. For every value thrown by \<^verbatim>\<open>fetch\<close> or \<^verbatim>\<open>json()\<close> in either stage, the
  pipeline ends in the Error state: with the thrown value's own message when it is an
  \<^verbatim>\<open>Error\<close> instance, and with the fallback "An unknown error occurred." when it is
  anything else. The rest of the state is as before.
\<close>

theorem thrown_value_message:
  assumes key: "API_KEY \<noteq> API_KEY_PLACEHOLDER"
    and nonempty: "cityName \<noteq> []"
    and raised:
      "geoFetch net (geoUrl API_KEY cityName) = Rejected t
       \<or> geoFetch net (geoUrl API_KEY cityName) = Response True (Inl t)
       \<or> (\<exists>g rest. geoFetch net (geoUrl API_KEY cityName) = Response True (Inr (g # rest))
            \<and> (weatherFetch net (weatherUrl API_KEY g) = Rejected t
               \<or> weatherFetch net (weatherUrl API_KEY g) = Response True (Inl t)))"
  shows "snd (fetchWeather API_KEY net cityName s) =
           s\<lparr>loading := False,
             error := Some (case t of ErrorObj m \<Rightarrow> m | NonError \<Rightarrow> ''An unknown error occurred.'')\<rparr>"
proof -
  have "snd (tryBlock API_KEY net cityName) = Inl t"
    using raised by (auto simp: tryBlock_def)
  then obtain urls where "tryBlock API_KEY net cityName = (urls, Inl t)"
    by (cases "tryBlock API_KEY net cityName") simp
  then have "snd (fetchWeather API_KEY net cityName s) =
      s\<lparr>loading := False, error := Some (catchMessage t)\<rparr>"
    using key nonempty by (simp add: fetchWeather_run)
  then show ?thesis by (cases t) simp_all
qed

theorem thrown_value_message_witness:
  "snd (fetchWeather ''k'' \<lparr>geoFetch = (\<lambda>u. Rejected NonError), weatherFetch = (\<lambda>u. Rejected NonError)\<rparr>
         ''Paris'' initial) =
     initial\<lparr>loading := False, error := Some ''An unknown error occurred.''\<rparr>
   \<and> snd (fetchWeather ''k''
         \<lparr>geoFetch = (\<lambda>u. Response True (Inl (ErrorObj ''JSON Parse error: Unexpected token: <''))),
          weatherFetch = (\<lambda>u. Rejected NonError)\<rparr> ''Paris'' initial) =
     initial\<lparr>loading := False, error := Some ''JSON Parse error: Unexpected token: <''\<rparr>"
  using thrown_value_message [of "''k''" "''Paris''"
      "\<lparr>geoFetch = (\<lambda>u. Rejected NonError), weatherFetch = (\<lambda>u. Rejected NonError)\<rparr>" NonError initial]
    thrown_value_message [of "''k''" "''Paris''"
      "\<lparr>geoFetch = (\<lambda>u. Response True (Inl (ErrorObj ''JSON Parse error: Unexpected token: <''))),
        weatherFetch = (\<lambda>u. Rejected NonError)\<rparr>"
      "ErrorObj ''JSON Parse error: Unexpected token: <''" initial]
  by (simp add: API_KEY_PLACEHOLDER_def)

text \<open>
  C3 at a text of three spaces, submitted on the screen as it is after mount: no request
  is sent, but \<^verbatim>\<open>handleSearch\<close> tests the text before it trims it, so the city becomes
  the empty string and the search field is cleared. The state is not the one before.
\<close>

theorem submit_blank_changes_state:
  "submitText API_KEY net ''   '' (snd (mount API_KEY net)) =
     ([], (snd (mount API_KEY net))\<lparr>city := '''', searchInput := ''''\<rparr>)
   \<and> city (snd (mount API_KEY net)) = ''Irvine''
   \<and> snd (submitText API_KEY net ''   '' (snd (mount API_KEY net))) \<noteq>
       (snd (mount API_KEY net))\<lparr>searchInput := ''   ''\<rparr>"
proof -
  let ?s = "snd (mount API_KEY net)"
  have run: "submitText API_KEY net ''   '' ?s = ([], ?s\<lparr>city := '''', searchInput := ''''\<rparr>)"
    by (simp add: submitText_def submit_def handleSearch_def cityEffect_def trim_blank
        fetchWeather_def)
  have "city (?s\<lparr>city := '''', searchInput := ''''\<rparr>) \<noteq> city (?s\<lparr>searchInput := ''   ''\<rparr>)"
    by (simp add: city_mount)
  then have "?s\<lparr>city := '''', searchInput := ''''\<rparr> \<noteq> ?s\<lparr>searchInput := ''   ''\<rparr>"
    by metis
  then show ?thesis using run by (simp add: city_mount)
qed

text \<open>
  C4, as stated, fails: after mount has fetched a clear day, which the screen renders as
  the weather view on the clear-day gradient, a search for a city that is not found
  leaves the Error state with the old bundle still stored: the error text is rendered,
  and the gradient is still the clear-day one, not the default.
\<close>

theorem stale_palette_counterexample:
  "renderContent (snd (mount ''k'' exampleNet))
     = Some (WeatherView (exampleBody\<lparr>name := ''Irvine''\<rparr>) '''')
   \<and> bgColors (snd (mount ''k'' exampleNet)) = Some [''#4a90e2'', ''#81c7f5'']
   \<and> error (snd (submitText ''k'' exampleNet ''Nowhereville'' (snd (mount ''k'' exampleNet))))
     = Some (''Could not find city: '' @ [CHR 0x22] @ ''Nowhereville'' @ [CHR 0x22])
   \<and> renderContent (snd (submitText ''k'' exampleNet ''Nowhereville'' (snd (mount ''k'' exampleNet))))
     = Some (ErrorView (''Could not find city: '' @ [CHR 0x22] @ ''Nowhereville'' @ [CHR 0x22]) '''')
   \<and> bgColors (snd (submitText ''k'' exampleNet ''Nowhereville'' (snd (mount ''k'' exampleNet))))
     = Some [''#4a90e2'', ''#81c7f5'']
   \<and> bgColors (snd (submitText ''k'' exampleNet ''Nowhereville'' (snd (mount ''k'' exampleNet))))
     \<noteq> Some [''#4c669f'', ''#3b5998'', ''#192f6a'']"
proof -
  let ?ready = "initial\<lparr>loading := False, weatherData := Some (exampleBody\<lparr>name := ''Irvine''\<rparr>)\<rparr>"
  let ?msg = "''Could not find city: '' @ [CHR 0x22] @ ''Nowhereville'' @ [CHR 0x22]"
  let ?after = "?ready\<lparr>city := ''Nowhereville'', searchInput := '''', loading := False,
                  error := Some ?msg\<rparr>"
  have ready: "snd (mount ''k'' exampleNet) = ?ready"
    by (simp add: mount_example)
  have search: "snd (submitText ''k'' exampleNet ''Nowhereville'' ?ready) = ?after"
    apply (simp add: submitText_def submit_def handleSearch_def cityEffect_def trim_def
        isWhiteSpace_def initial_def)
    apply (simp add: fetchWeather_def tryBlock_def exampleNet_def API_KEY_PLACEHOLDER_def
        geoUrl_def notFound_def)
    done
  have c1: "renderContent ?ready = Some (WeatherView (exampleBody\<lparr>name := ''Irvine''\<rparr>) '''')"
    by (simp add: renderContent_def weatherBranch_def weatherViewRenders_name
        exampleBody_renders initial_def)
  have c2: "bgColors ?ready = Some [''#4a90e2'', ''#81c7f5'']"
    by (simp add: bgColors_def exampleBody_def isDay_def themeColors_def)
  have c3: "error ?after = Some ?msg"
    by simp
  have c4: "renderContent ?after = Some (ErrorView ?msg '''')"
    by (simp add: renderContent_def)
  have c5: "bgColors ?after = Some [''#4a90e2'', ''#81c7f5'']"
    by (simp add: bgColors_def exampleBody_def isDay_def themeColors_def)
  have c6: "bgColors ?after \<noteq> Some [''#4c669f'', ''#3b5998'', ''#192f6a'']"
    unfolding c5 by simp
  show ?thesis
    unfolding ready search
    by (intro conjI c1 c2 c3 c4 c5 c6)
qed

text \<open>
  C4, amended. A state that holds no bundle has the default palette. In a state that is
  loading or shows an error (a non-empty message), the content rendered does not depend
  on the stored bundle. The palette depends on the stored bundle alone: the loading flag
  and the error do not change it.
\<close>

theorem default_palette_without_bundle:
  "(weatherData s = None \<longrightarrow> bgColors s = Some [''#4c669f'', ''#3b5998'', ''#192f6a''])
   \<and> (loading s \<or> (\<exists>m. error s = Some m \<and> m \<noteq> []) \<longrightarrow>
        renderContent (s\<lparr>weatherData := w\<rparr>) = renderContent s)
   \<and> bgColors (s\<lparr>loading := l, error := e\<rparr>) = bgColors s"
  by (auto simp: bgColors_def renderContent_def defaultColors_def)

theorem default_palette_without_bundle_witness:
  "bgColors (initial\<lparr>loading := False, error := Some ''Failed to fetch city coordinates.''\<rparr>)
     = Some [''#4c669f'', ''#3b5998'', ''#192f6a'']
   \<and> renderContent (initial\<lparr>loading := False, error := Some ''Failed to fetch city coordinates.'',
                             weatherData := Some exampleBody\<rparr>)
     = Some (ErrorView ''Failed to fetch city coordinates.'' '''')"
  using default_palette_without_bundle
    [where s = "initial\<lparr>loading := False, error := Some ''Failed to fetch city coordinates.''\<rparr>"
       and w = "Some exampleBody"]
  by (simp add: initial_def defaultColors_def renderContent_def)

text \<open>
  C5. For a state holding a bundle with current conditions, the palette follows the
  primary condition by the first rule that matches, in the order Clear, Clouds, Rain or
  Drizzle, Snow, and is the three-stop default when none does. Clear and Clouds split on
  day and night, Rain, Drizzle and Snow do not; a condition containing both "Clear" and
  "Clouds" gets the Clear palette.
\<close>

theorem bgColors_rules:
  assumes "weatherData s = Some wd" and "current wd = Some c" and "weather c = w0 # ws"
  shows "(includes_str (main w0) ''Clear'' \<longrightarrow>
            bgColors s = Some (if isDay c then [''#4a90e2'', ''#81c7f5'']
                               else [''#0c1445'', ''#3b5998'']))
       \<and> (includes_str (main w0) ''Clear'' \<and> includes_str (main w0) ''Clouds'' \<longrightarrow>
            bgColors s = Some (if isDay c then [''#4a90e2'', ''#81c7f5'']
                               else [''#0c1445'', ''#3b5998'']))
       \<and> (\<not> includes_str (main w0) ''Clear'' \<and> includes_str (main w0) ''Clouds'' \<longrightarrow>
            bgColors s = Some (if isDay c then [''#6c7a89'', ''#95a5a6'']
                               else [''#2c3e50'', ''#34495e'']))
       \<and> (\<not> includes_str (main w0) ''Clear'' \<and> \<not> includes_str (main w0) ''Clouds''
            \<and> (includes_str (main w0) ''Rain'' \<or> includes_str (main w0) ''Drizzle'') \<longrightarrow>
            bgColors s = Some [''#546e7a'', ''#37474f''])
       \<and> (\<not> includes_str (main w0) ''Clear'' \<and> \<not> includes_str (main w0) ''Clouds''
            \<and> \<not> includes_str (main w0) ''Rain'' \<and> \<not> includes_str (main w0) ''Drizzle''
            \<and> includes_str (main w0) ''Snow'' \<longrightarrow>
            bgColors s = Some [''#b0c4de'', ''#a4b0be''])
       \<and> (\<not> includes_str (main w0) ''Clear'' \<and> \<not> includes_str (main w0) ''Clouds''
            \<and> \<not> includes_str (main w0) ''Rain'' \<and> \<not> includes_str (main w0) ''Drizzle''
            \<and> \<not> includes_str (main w0) ''Snow'' \<longrightarrow>
            bgColors s = Some [''#4c669f'', ''#3b5998'', ''#192f6a''])"
  using assms by (simp add: bgColors_def themeColors_def defaultColors_def)

theorem bgColors_rules_witness:
  "bgColors (stateWith ''Clear then Clouds'' 1700020000) = Some [''#4a90e2'', ''#81c7f5'']
   \<and> bgColors (stateWith ''Clouds and Clear'' 1700050000) = Some [''#0c1445'', ''#3b5998'']
   \<and> bgColors (stateWith ''Clouds'' 1700020000) = Some [''#6c7a89'', ''#95a5a6'']
   \<and> bgColors (stateWith ''Clouds'' 1700050000) = Some [''#2c3e50'', ''#34495e'']
   \<and> bgColors (stateWith ''Rain'' 1700020000) = Some [''#546e7a'', ''#37474f'']
   \<and> bgColors (stateWith ''Drizzle'' 1700050000) = Some [''#546e7a'', ''#37474f'']
   \<and> bgColors (stateWith ''Snow'' 1700020000) = Some [''#b0c4de'', ''#a4b0be'']
   \<and> bgColors (stateWith ''Thunderstorm'' 1700020000) = Some [''#4c669f'', ''#3b5998'', ''#192f6a'']"
proof -
  have a: "weatherData (stateWith cond now) = Some (bundleWith cond now)" for cond now
    by (simp add: stateWith_def)
  have b: "current (bundleWith cond now) = Some (currentWith cond now)" for cond now
    by (simp add: bundleWith_def)
  have c: "weather (currentWith cond now) = [\<lparr>main = cond, description = cond\<rparr>]" for cond now
    by (simp add: currentWith_def)
  note r = bgColors_rules [OF a b c]
  have day: "isDay (currentWith cond 1700020000)" and night: "\<not> isDay (currentWith cond 1700050000)"
    for cond
    by (simp_all add: isDay_def currentWith_def)
  show ?thesis
    using r [of "''Clear then Clouds''" 1700020000] r [of "''Clouds and Clear''" 1700050000]
      r [of "''Clouds''" 1700020000] r [of "''Clouds''" 1700050000]
      r [of "''Rain''" 1700020000] r [of "''Drizzle''" 1700050000]
      r [of "''Snow''" 1700020000] r [of "''Thunderstorm''" 1700020000]
    by (simp add: day night)
qed

text \<open>
  C6. With a real key, when the geocoding call answers with no match, the pipeline ends
  in the Error state with the message \<^verbatim>\<open>Could not find city: "<name>"\<close>, where the name
  is the argument of \<^verbatim>\<open>fetchWeather\<close> as it was passed, white space included. For a
  search, that argument is the text as \<^verbatim>\<open>handleSearch\<close> trimmed it.
\<close>

theorem not_found_message:
  assumes key: "API_KEY \<noteq> API_KEY_PLACEHOLDER"
  shows "(cityName \<noteq> [] \<and> geoFetch net (geoUrl API_KEY cityName) = Response True (Inr []) \<longrightarrow>
            snd (fetchWeather API_KEY net cityName s) =
              s\<lparr>loading := False,
                error := Some (''Could not find city: '' @ [CHR 0x22] @ cityName @ [CHR 0x22])\<rparr>)
       \<and> (trim t \<noteq> [] \<and> trim t \<noteq> city s
            \<and> geoFetch net (geoUrl API_KEY (trim t)) = Response True (Inr []) \<longrightarrow>
            snd (submitText API_KEY net t s) =
              s\<lparr>city := trim t, searchInput := '''', loading := False,
                error := Some (''Could not find city: '' @ [CHR 0x22] @ trim t @ [CHR 0x22])\<rparr>)"
proof -
  have run: "snd (fetchWeather API_KEY net c s') =
      s'\<lparr>loading := False, error := Some (''Could not find city: '' @ [CHR 0x22] @ c @ [CHR 0x22])\<rparr>"
    if "c \<noteq> []" and "geoFetch net (geoUrl API_KEY c) = Response True (Inr [])" for c s'
    using that key by (simp add: fetchWeather_run tryBlock_no_match notFound_eq)
  have typed: "t \<noteq> []" if "trim t \<noteq> []"
    using that by (auto simp: trim_def)
  show ?thesis
    using run [of cityName s] run [of "trim t" "s\<lparr>city := trim t, searchInput := ''''\<rparr>"] typed
    by (auto simp: submitText_def submit_def handleSearch_def cityEffect_def)
qed

theorem not_found_message_witness:
  "snd (fetchWeather ''k'' exampleNet '' Nowhereville '' initial) =
     initial\<lparr>loading := False,
       error := Some (''Could not find city: '' @ [CHR 0x22] @ '' Nowhereville '' @ [CHR 0x22])\<rparr>
   \<and> snd (submitText ''k'' exampleNet '' Nowhereville '' initial) =
     initial\<lparr>city := ''Nowhereville'', searchInput := '''', loading := False,
       error := Some (''Could not find city: '' @ [CHR 0x22] @ ''Nowhereville'' @ [CHR 0x22])\<rparr>"
proof -
  have t: "trim '' Nowhereville '' = ''Nowhereville''"
    by (simp add: trim_def isWhiteSpace_def)
  show ?thesis
    using not_found_message [where API_KEY = "''k''" and cityName = "'' Nowhereville ''"
        and net = exampleNet and t = "'' Nowhereville ''" and s = initial]
    by (simp add: t API_KEY_PLACEHOLDER_def exampleNet_def geoUrl_def initial_def)
qed

text \<open>
  C7. It is day exactly when the current time is strictly between sunrise and sunset; at
  sunrise and at sunset it is night.
\<close>

theorem isDay_strict:
  "isDay c = (sunrise c < dt c \<and> dt c < sunset c)
   \<and> (dt c = sunrise c \<or> dt c = sunset c \<longrightarrow> \<not> isDay c)"
  by (auto simp: isDay_def)

theorem isDay_strict_witness:
  "\<not> isDay (currentWith ''Clear'' 1700000000) \<and> \<not> isDay (currentWith ''Clear'' 1700040000)
   \<and> isDay (currentWith ''Clear'' 1700000001)
   \<and> bgColors (stateWith ''Clear'' 1700000000) = Some [''#0c1445'', ''#3b5998'']
   \<and> bgColors (stateWith ''Clear'' 1700040000) = Some [''#0c1445'', ''#3b5998'']"
  using isDay_strict [of "currentWith ''Clear'' 1700000000"]
    isDay_strict [of "currentWith ''Clear'' 1700040000"]
    isDay_strict [of "currentWith ''Clear'' 1700000001"]
  by (simp add: currentWith_def bgColors_def stateWith_def bundleWith_def themeColors_def)

text \<open>
  C8. With a real key, a geocoding response whose status is not a success ends in the
  Error state with "Failed to fetch city coordinates.", and a forecast response whose
  status is not a success ends in the Error state with "API Key Error. Ensure it is valid
  and authorized for One Call API."; the two runs never show the same error.
\<close>

theorem http_status_messages:
  assumes key1: "K1 \<noteq> API_KEY_PLACEHOLDER" and city1: "c1 \<noteq> []"
    and geo_fails: "geoFetch n1 (geoUrl K1 c1) = Response False js1"
    and key2: "K2 \<noteq> API_KEY_PLACEHOLDER" and city2: "c2 \<noteq> []"
    and geo_ok: "geoFetch n2 (geoUrl K2 c2) = Response True (Inr (g # rest))"
    and forecast_fails: "weatherFetch n2 (weatherUrl K2 g) = Response False js2"
  shows "snd (fetchWeather K1 n1 c1 s1) =
           s1\<lparr>loading := False, error := Some ''Failed to fetch city coordinates.''\<rparr>
       \<and> snd (fetchWeather K2 n2 c2 s2) =
           s2\<lparr>loading := False,
              error := Some ''API Key Error. Ensure it is valid and authorized for One Call API.''\<rparr>
       \<and> error (snd (fetchWeather K1 n1 c1 s1)) \<noteq> error (snd (fetchWeather K2 n2 c2 s2))"
proof -
  have "tryBlock K1 n1 c1 =
      ([geoUrl K1 c1], Inl (ErrorObj ''Failed to fetch city coordinates.''))"
    using geo_fails by (simp add: tryBlock_def)
  then have first: "snd (fetchWeather K1 n1 c1 s1) =
      s1\<lparr>loading := False, error := Some ''Failed to fetch city coordinates.''\<rparr>"
    using key1 city1 by (simp add: fetchWeather_run)
  have "tryBlock K2 n2 c2 =
      ([geoUrl K2 c2, weatherUrl K2 g],
       Inl (ErrorObj ''API Key Error. Ensure it is valid and authorized for One Call API.''))"
    using geo_ok forecast_fails by (simp add: tryBlock_def)
  then have second: "snd (fetchWeather K2 n2 c2 s2) =
      s2\<lparr>loading := False,
         error := Some ''API Key Error. Ensure it is valid and authorized for One Call API.''\<rparr>"
    using key2 city2 by (simp add: fetchWeather_run)
  show ?thesis unfolding first second by simp
qed

theorem http_status_messages_witness:
  "snd (fetchWeather ''k'' (statusNet False True) ''Irvine'' initial) =
     initial\<lparr>loading := False, error := Some ''Failed to fetch city coordinates.''\<rparr>
   \<and> snd (fetchWeather ''k'' (statusNet True False) ''Irvine'' initial) =
     initial\<lparr>loading := False,
       error := Some ''API Key Error. Ensure it is valid and authorized for One Call API.''\<rparr>"
  using http_status_messages [where ?K1.0 = "''k''" and ?c1.0 = "''Irvine''"
      and ?n1.0 = "statusNet False True" and ?K2.0 = "''k''" and ?c2.0 = "''Irvine''"
      and ?n2.0 = "statusNet True False" and ?s1.0 = initial and ?s2.0 = initial]
  by (simp add: statusNet_def API_KEY_PLACEHOLDER_def)

text \<open>
  C9. Submitting a non-empty text clears the search field and sets the city to the
  trimmed text, both in the one call of \<^verbatim>\<open>handleSearch\<close>, and both still hold when the
  pipeline it triggers has ended, whatever the network answered.
\<close>

theorem search_clears_field_and_sets_city:
  assumes "searchInput s \<noteq> []"
  shows "handleSearch s = s\<lparr>city := trim (searchInput s), searchInput := ''''\<rparr>
       \<and> searchInput (snd (submit API_KEY net s)) = ''''
       \<and> city (snd (submit API_KEY net s)) = trim (searchInput s)"
  using assms by (simp add: submit_def cityEffect_def handleSearch_def fetchWeather_frame)

theorem search_clears_field_and_sets_city_witness:
  "snd (submit ''k'' exampleNet (initial\<lparr>loading := False, searchInput := ''  Irvine ''\<rparr>)) =
     initial\<lparr>loading := False\<rparr>
   \<and> snd (submit ''k'' exampleNet (initial\<lparr>city := ''Paris'', loading := False, searchInput := ''  Irvine ''\<rparr>)) =
     initial\<lparr>loading := False, weatherData := Some (exampleBody\<lparr>name := ''Irvine''\<rparr>)\<rparr>"
  using search_clears_field_and_sets_city [of "initial\<lparr>loading := False, searchInput := ''  Irvine ''\<rparr>" "''k''" exampleNet]
  search_clears_field_and_sets_city [of "initial\<lparr>city := ''Paris'', loading := False, searchInput := ''  Irvine ''\<rparr>" "''k''" exampleNet]
  by (simp add: submit_def cityEffect_def handleSearch_def trim_def isWhiteSpace_def initial_def
      fetchWeather_def tryBlock_def exampleNet_def API_KEY_PLACEHOLDER_def)

text \<open>
  C10. With a real key and a non-empty city name, the first URL requested is the
  geocoding URL with the city name spliced in as it is, nothing encoded.
\<close>

theorem geoUrl_verbatim:
  assumes "API_KEY \<noteq> API_KEY_PLACEHOLDER" and "cityName \<noteq> []"
  shows "fst (fetchWeather API_KEY net cityName s) \<noteq> []
       \<and> hd (fst (fetchWeather API_KEY net cityName s)) =
           ''https://api.openweathermap.org/geo/1.0/direct?q='' @ cityName
             @ ''&limit=1&appid='' @ API_KEY"
proof -
  have "fst (tryBlock API_KEY net cityName) \<noteq> []
      \<and> hd (fst (tryBlock API_KEY net cityName)) = geoUrl API_KEY cityName"
    by (simp add: tryBlock_def split: response.splits sum.splits list.splits)
  moreover have "fst (fetchWeather API_KEY net cityName s) = fst (tryBlock API_KEY net cityName)"
    using assms by (simp add: fetchWeather_run split: prod.splits sum.splits)
  ultimately show ?thesis by (simp add: geoUrl_def)
qed

theorem geoUrl_verbatim_witness:
  "hd (fst (fetchWeather ''k'' exampleNet ''San Jose&limit=5#top'' initial)) =
     ''https://api.openweathermap.org/geo/1.0/direct?q=San Jose&limit=5#top&limit=1&appid=k''"
  using geoUrl_verbatim [of "''k''" "''San Jose&limit=5#top''" exampleNet initial]
  by (simp add: API_KEY_PLACEHOLDER_def)

end
